theory Spec2Isabelle
  imports Main
begin

section \<open>JavaScript values, errors and the outside world\<close>

text \<open>
  The client is JavaScript: parameters, request variables and decoded responses are
  dynamically typed values, exceptions are values of a few classes, and the code branches on
  truthiness. Numbers are kept as integers: no claim computes with amounts.
\<close>

datatype error =
    RequireMFAException string
  | LoginFailedException string
  | RequestFailedException string
  | Error string
  | TypeError string
  | ReferenceError string
  | AxiosError string
  | Rejected string

datatype json =
    JUndefined
  | JNull
  | JBool bool
  | JNum int
  | JStr string
  | JArr "json list"
  | JObj "(string \<times> json) list"
  | JError error

text \<open>Truthiness, as \<open>if (x)\<close>, \<open>!x\<close>, \<open>a && b\<close> and \<open>a || b\<close> test it.\<close>

fun truthy :: "json \<Rightarrow> bool" where
  "truthy JUndefined = False"
| "truthy JNull = False"
| "truthy (JBool b) = b"
| "truthy (JNum n) = (n \<noteq> 0)"
| "truthy (JStr s) = (s \<noteq> [])"
| "truthy (JArr xs) = True"
| "truthy (JObj kvs) = True"
| "truthy (JError e) = True"

text \<open>A default parameter value (\<open>startDate = null\<close>) replaces \<open>undefined\<close> only.\<close>

definition dflt :: "json \<Rightarrow> json \<Rightarrow> json" where
  "dflt d v = (if v = JUndefined then d else v)"

text \<open>
  Property read \<open>x.k\<close>: a missing property is \<open>undefined\<close>, reading from \<open>null\<close> or
  \<open>undefined\<close> throws a TypeError.
\<close>

definition get_prop :: "(string \<times> json) list \<Rightarrow> string \<Rightarrow> json" where
  "get_prop kvs k = (case map_of kvs k of None \<Rightarrow> JUndefined | Some v \<Rightarrow> v)"

fun member :: "json \<Rightarrow> string \<Rightarrow> error + json" where
  "member JUndefined k = Inl (TypeError (''Cannot read properties of undefined (reading '' @ k @ '')''))"
| "member JNull k = Inl (TypeError (''Cannot read properties of null (reading '' @ k @ '')''))"
| "member (JObj kvs) k = Inr (get_prop kvs k)"
| "member v k = Inr JUndefined"

text \<open>Property write \<open>obj.k = v\<close>: an existing key keeps its place, a new one goes last.\<close>

fun set_prop :: "string \<Rightarrow> 'a \<Rightarrow> (string \<times> 'a) list \<Rightarrow> (string \<times> 'a) list" where
  "set_prop k v [] = [(k, v)]"
| "set_prop k v (p # ps) = (if fst p = k then (k, v) # ps else p # set_prop k v ps)"

text \<open>Decimal notation of a number, and string conversion as in a template literal.\<close>

fun digits :: "nat \<Rightarrow> string" where
  "digits n = (if n < 10 then [''0123456789'' ! n]
               else digits (n div 10) @ [''0123456789'' ! (n mod 10)])"

definition show_int :: "int \<Rightarrow> string" where
  "show_int i = (if i < 0 then ''-'' @ digits (nat (- i)) else digits (nat i))"

fun error_message :: "error \<Rightarrow> string" where
  "error_message (RequireMFAException m) = m"
| "error_message (LoginFailedException m) = m"
| "error_message (RequestFailedException m) = m"
| "error_message (Error m) = m"
| "error_message (TypeError m) = m"
| "error_message (ReferenceError m) = m"
| "error_message (AxiosError m) = m"
| "error_message (Rejected m) = m"

fun error_name :: "error \<Rightarrow> string" where
  "error_name (TypeError m) = ''TypeError''"
| "error_name (ReferenceError m) = ''ReferenceError''"
| "error_name (AxiosError m) = ''AxiosError''"
| "error_name e = ''Error''"

fun to_string :: "json \<Rightarrow> string" and join_elems :: "json list \<Rightarrow> string" where
  "to_string JUndefined = ''undefined''"
| "to_string JNull = ''null''"
| "to_string (JBool b) = (if b then ''true'' else ''false'')"
| "to_string (JNum n) = show_int n"
| "to_string (JStr s) = s"
| "to_string (JArr xs) = join_elems xs"
| "to_string (JObj kvs) = ''[object Object]''"
| "to_string (JError e) =
     (if error_message e = [] then error_name e else error_name e @ '': '' @ error_message e)"
| "join_elems [] = []"
| "join_elems (x # xs) =
     (if x = JUndefined \<or> x = JNull then [] else to_string x) @
     (if xs = [] then [] else '','' @ join_elems xs)"

text \<open>
  The message an \<open>Error\<close> subclass stores for its constructor argument: the argument
  converted to a string (an absent argument leaves the message empty).
\<close>

definition message_of :: "json \<Rightarrow> string" where
  "message_of v = (if v = JUndefined then [] else to_string v)"

text \<open>
  What goes over the wire. \<open>Post\<close> is a call of \<open>fetch\<close> or \<open>axios.post\<close> (URL, headers,
  body); \<open>GraphQL\<close> is a call of the GraphQL client's \<open>request\<close> (endpoint, headers,
  timeout, then the two arguments in the order the caller passes them). An argument of
  \<open>request\<close> is either a parsed \<open>gql\<close> document, kept as its operation name and the
  variables its header declares, or a plain value.
\<close>

datatype jsarg = Document string "string list" | Value json

datatype request =
    Post string "(string \<times> string) list" json
  | GraphQL string "(string \<times> string) list" nat jsarg jsarg

record http_response =
  status :: int
  statusText :: string
  body :: json

text \<open>
  The environment of a run. The remote service answers a request in view of the requests
  sent before it, so a stub may count polls; \<open>http\<close> is the answer of the endpoint to a
  post, \<open>graphql\<close> the outcome of a query call, and \<open>latency\<close> the milliseconds a query
  call takes to come back. \<open>isoDate y m d\<close> stands for
  \<open>new Date(y, m, d).toISOString().split("T")[0]\<close>, and \<open>year\<close>, \<open>month\<close> for
  \<open>getFullYear()\<close> and \<open>getMonth()\<close> of the current date.
\<close>

record env =
  http :: "request list \<Rightarrow> request \<Rightarrow> error + http_response"
  graphql :: "request list \<Rightarrow> request \<Rightarrow> error + json"
  latency :: "request list \<Rightarrow> request \<Rightarrow> nat"
  isoDate :: "int \<Rightarrow> int \<Rightarrow> int \<Rightarrow> string"
  year :: int
  month :: int

text \<open>
  The effects every call can have: the trace of requests sent, the millisecond clock
  (\<open>Date.now()\<close>; a timer and an awaited query call advance it) and the files written (a
  JSON file is kept as the value \<open>JSON.parse\<close> reads back from it).
\<close>

record io =
  sent :: "request list"
  clock :: nat
  files :: "(string \<times> json) list"

section \<open>constants.js\<close>

definition BASE_URL :: string where
  "BASE_URL = ''https://api.monarchmoney.com''"

definition AUTH_HEADER_KEY :: string where
  "AUTH_HEADER_KEY = ''Authorization''"

definition ERRORS_KEY :: string where
  "ERRORS_KEY = ''error_code''"

definition GQL_ENDPOINT :: string where
  "GQL_ENDPOINT = BASE_URL @ ''/graphql''"

definition getLoginEndpoint :: string where
  "getLoginEndpoint = BASE_URL @ ''/auth/login/''"


section \<open>session.js: the process-wide credential store\<close>

record session = io +
  headers :: "(string \<times> string) list"
  token :: json

text \<open>Module initialisation, given the value of the environment variable MONARCH_TOKEN.\<close>

definition initial_session :: "json \<Rightarrow> session" where
  "initial_session env_token =
     \<lparr> sent = [], clock = 0, files = [],
       headers = (if truthy env_token
                  then set_prop ''Authorization'' (''Token '' @ to_string env_token)
                         [(''Client-Platform'', ''web'')]
                  else [(''Client-Platform'', ''web'')]),
       token = JNull \<rparr>"

definition setToken :: "json \<Rightarrow> session \<Rightarrow> session" where
  "setToken newToken s =
     s\<lparr> token := newToken,
        headers := set_prop ''Authorization'' (''Token '' @ to_string newToken) (headers s) \<rparr>"

definition getHeaders :: "session \<Rightarrow> (string \<times> string) list" where
  "getHeaders s = headers s"

definition getToken :: "session \<Rightarrow> json" where
  "getToken s = token s"

section \<open>The login module\<close>

text \<open>
  \<open>loginUser\<close> posts the credentials as a URL-encoded form, whose values are strings.
  The module neither defines nor imports \<open>generateOtp\<close>, so a truthy \<open>mfaSecretKey\<close>
  ends the call with a ReferenceError before the request.
\<close>

definition loginUser :: "env \<Rightarrow> json \<Rightarrow> json \<Rightarrow> json \<Rightarrow> session \<Rightarrow> (error + json) \<times> session" where
  "loginUser e email password mfaSecretKey s =
     (let data = [(''password'', JStr (to_string password)), (''supports_mfa'', JStr ''true''),
                  (''trusted_device'', JStr ''false''), (''username'', JStr (to_string email))]
      in if truthy mfaSecretKey then (Inl (ReferenceError ''generateOtp is not defined''), s)
         else
           let req = Post getLoginEndpoint (getHeaders s) (JObj data);
               s1 = s\<lparr>sent := sent s @ [req]\<rparr>
           in case http e (sent s) req of
                Inl x \<Rightarrow> (Inl x, s1)
              | Inr response \<Rightarrow>
                  if status response = 403
                  then (Inl (RequireMFAException ''Multi-Factor Auth Required''), s1)
                  else if status response \<noteq> 200
                  then (Inl (LoginFailedException
                          (''HTTP Code '' @ show_int (status response) @ '': '' @ statusText response)), s1)
                  else (case member (body response) ''token'' of
                          Inl x \<Rightarrow> (Inl x, s1)
                        | Inr t \<Rightarrow> (Inr JUndefined, setToken t s1)))"

definition multiFactorAuthenticate :: "env \<Rightarrow> json \<Rightarrow> json \<Rightarrow> json \<Rightarrow> session \<Rightarrow> (error + json) \<times> session" where
  "multiFactorAuthenticate e email password code s =
     (let data = [(''password'', JStr (to_string password)), (''supports_mfa'', JStr ''true''),
                  (''totp'', JStr (to_string code)),
                  (''trusted_device'', JStr ''false''), (''username'', JStr (to_string email))];
          req = Post getLoginEndpoint (getHeaders s) (JObj data);
          s1 = s\<lparr>sent := sent s @ [req]\<rparr>
      in case http e (sent s) req of
           Inl x \<Rightarrow> (Inl x, s1)
         | Inr response \<Rightarrow>
             if status response \<noteq> 200
             then (case member (body response) ERRORS_KEY of
                     Inl x \<Rightarrow> (Inl x, s1)
                   | Inr c \<Rightarrow> (Inl (LoginFailedException
                                (message_of (if truthy c then c else JStr ''Unknown error''))), s1))
             else (case member (body response) ''token'' of
                     Inl x \<Rightarrow> (Inl x, s1)
                   | Inr t \<Rightarrow> (Inr JUndefined, setToken t s1)))"


section \<open>api.js: the transport\<close>

text \<open>
  Two combinators for sequencing: \<open>eval\<close> continues with the value of an expression that
  may throw, \<open>await\<close> continues with the value and the state of a call that may throw.
\<close>

definition eval :: "error + 'a \<Rightarrow> 's \<Rightarrow> ('a \<Rightarrow> (error + 'b) \<times> 's) \<Rightarrow> (error + 'b) \<times> 's" where
  "eval r s f = (case r of Inl x \<Rightarrow> (Inl x, s) | Inr v \<Rightarrow> f v)"

definition await :: "(error + 'a) \<times> 's \<Rightarrow> ('a \<Rightarrow> 's \<Rightarrow> (error + 'b) \<times> 's) \<Rightarrow> (error + 'b) \<times> 's" where
  "await m f = (case m of (Inl x, s) \<Rightarrow> (Inl x, s) | (Inr v, s) \<Rightarrow> f v s)"

text \<open>\<open>r.a.b\<close>\<close>

definition member2 :: "json \<Rightarrow> string \<Rightarrow> string \<Rightarrow> error + json" where
  "member2 r a b = (case member r a of Inl x \<Rightarrow> Inl x | Inr v \<Rightarrow> member v b)"

text \<open>Destructuring of an options object (\<open>function f({ limit = 100, ... })\<close>).\<close>

fun destructure :: "json \<Rightarrow> error + (string \<Rightarrow> json)" where
  "destructure JUndefined = Inl (TypeError ''Cannot destructure undefined'')"
| "destructure JNull = Inl (TypeError ''Cannot destructure null'')"
| "destructure (JObj kvs) = Inr (get_prop kvs)"
| "destructure v = Inr (\<lambda>k. JUndefined)"

definition set_if :: "bool \<Rightarrow> string \<Rightarrow> 'a \<Rightarrow> (string \<times> 'a) list \<Rightarrow> (string \<times> 'a) list" where
  "set_if c k v ob = (if c then set_prop k v ob else ob)"

definition timeout :: nat where
  "timeout = 10"

text \<open>A client is its endpoint, its headers and its timeout.\<close>

type_synonym client = "string \<times> (string \<times> string) list \<times> nat"

definition getGraphQLClient :: "session \<Rightarrow> error + client" where
  "getGraphQLClient s =
     (let hs = getHeaders s
      in if (case map_of hs AUTH_HEADER_KEY of None \<Rightarrow> True | Some v \<Rightarrow> v = [])
         then Inl (LoginFailedException ''Make sure you call login() first or provide a session token!'')
         else Inr (GQL_ENDPOINT, hs, timeout * 1000))"

definition client_request :: "env \<Rightarrow> client \<Rightarrow> jsarg \<Rightarrow> jsarg \<Rightarrow> 'a io_scheme \<Rightarrow> (error + json) \<times> 'a io_scheme" where
  "client_request e c document variables s =
     (case c of (url, hs, t) \<Rightarrow>
        let req = GraphQL url hs t document variables
        in (graphql e (sent s) req,
            s\<lparr>sent := sent s @ [req], clock := clock s + latency e (sent s) req\<rparr>))"

definition gqlCall :: "env \<Rightarrow> string \<Rightarrow> jsarg \<Rightarrow> jsarg \<Rightarrow> session \<Rightarrow> (error + json) \<times> session" where
  "gqlCall e operation graphqlQuery variables s =
     (case getGraphQLClient s of
        Inl x \<Rightarrow> (Inl x, s)
      | Inr c \<Rightarrow> client_request e c graphqlQuery variables s)"

section \<open>The class MonarchMoney: state, session file, login, transport\<close>

record MonarchMoney = io +
  MM_headers :: "(string \<times> string) list"
  MM_sessionFile :: string
  MM_token :: json
  MM_timeout :: nat

text \<open>The constructor, with the session file given (its default needs \<open>__dirname\<close>).\<close>

definition MonarchMoney_new :: "io \<Rightarrow> string \<Rightarrow> nat \<Rightarrow> json \<Rightarrow> MonarchMoney" where
  "MonarchMoney_new w sessionFile tmo tok =
     \<lparr> sent = sent w, clock = clock w, files = files w,
       MM_headers = set_if (truthy tok) ''Authorization'' (''Token '' @ to_string tok)
                      [(''Client-Platform'', ''web'')],
       MM_sessionFile = sessionFile, MM_token = tok, MM_timeout = tmo \<rparr>"

text \<open>
  The class body declares the accessor pair \<open>get token()\<close> / \<open>set token(value)\<close> and no
  method named \<open>setToken\<close>, and it extends nothing: \<open>this.setToken\<close> is \<open>undefined\<close>.
\<close>

definition MonarchMoney_setToken :: "(json \<Rightarrow> MonarchMoney \<Rightarrow> MonarchMoney) option" where
  "MonarchMoney_setToken = None"

text \<open>\<open>this.setToken(v); this._headers["Authorization"] = `Token ${this._token}`\<close>\<close>

definition MonarchMoney_store_token :: "json \<Rightarrow> MonarchMoney \<Rightarrow> (error + json) \<times> MonarchMoney" where
  "MonarchMoney_store_token v s =
     (case MonarchMoney_setToken of
        None \<Rightarrow> (Inl (TypeError ''this.setToken is not a function''), s)
      | Some f \<Rightarrow>
          let s1 = f v s
          in (Inr JUndefined,
              s1\<lparr>MM_headers := set_prop ''Authorization'' (''Token '' @ to_string (MM_token s1)) (MM_headers s1)\<rparr>))"

definition existsSync :: "'a io_scheme \<Rightarrow> string \<Rightarrow> bool" where
  "existsSync s filename = (map_of (files s) filename \<noteq> None)"

text \<open>\<open>JSON.stringify\<close> leaves out a property whose value is \<open>undefined\<close>.\<close>

definition MonarchMoney_saveSession :: "string \<Rightarrow> MonarchMoney \<Rightarrow> (error + json) \<times> MonarchMoney" where
  "MonarchMoney_saveSession filename s =
     (let sessionData = JObj (set_if (MM_token s \<noteq> JUndefined) ''token'' (MM_token s) [])
      in (Inr JUndefined, s\<lparr>files := set_prop filename sessionData (files s)\<rparr>))"

definition MonarchMoney_loadSession :: "string \<Rightarrow> MonarchMoney \<Rightarrow> (error + json) \<times> MonarchMoney" where
  "MonarchMoney_loadSession filename s =
     (case map_of (files s) filename of
        None \<Rightarrow> (Inl (Error (''ENOENT: no such file or directory, open '' @ filename)), s)
      | Some data \<Rightarrow> eval (member data ''token'') s (\<lambda>t. MonarchMoney_store_token t s))"

definition MonarchMoney_deleteSession :: "string \<Rightarrow> MonarchMoney \<Rightarrow> (error + json) \<times> MonarchMoney" where
  "MonarchMoney_deleteSession filename s =
     (if existsSync s filename
      then (Inr JUndefined, s\<lparr>files := filter (\<lambda>p. fst p \<noteq> filename) (files s)\<rparr>)
      else (Inr JUndefined, s))"

text \<open>
  \<open>axios.post\<close>, called with no \<open>validateStatus\<close>, resolves with a response of a status
  from 200 to 299 and rejects any other with an AxiosError.
\<close>

definition axios_post :: "env \<Rightarrow> request \<Rightarrow> 'a io_scheme \<Rightarrow> (error + http_response) \<times> 'a io_scheme" where
  "axios_post e req s =
     (let s1 = s\<lparr>sent := sent s @ [req]\<rparr>
      in case http e (sent s) req of
           Inl x \<Rightarrow> (Inl x, s1)
         | Inr response \<Rightarrow>
             if 200 \<le> status response \<and> status response < 300 then (Inr response, s1)
             else (Inl (AxiosError (''Request failed with status code '' @ show_int (status response))),
                   s1))"

text \<open>
  \<open>_loginUser\<close> posts the credentials as a JSON object with \<open>axios.post\<close>. For a truthy
  \<open>mfaSecretKey\<close> it calls \<open>require\<close>, which an ES module does not have.
\<close>

definition MonarchMoney_priv_loginUser :: "env \<Rightarrow> json \<Rightarrow> json \<Rightarrow> json \<Rightarrow> MonarchMoney \<Rightarrow> (error + json) \<times> MonarchMoney" where
  "MonarchMoney_priv_loginUser e email password mfaSecretKey s =
     (let data = [(''password'', password), (''supports_mfa'', JBool True),
                  (''trusted_device'', JBool False), (''username'', email)]
      in if truthy mfaSecretKey then (Inl (ReferenceError ''require is not defined''), s)
         else await (axios_post e (Post getLoginEndpoint (MM_headers s) (JObj data)) s)
                (\<lambda>response s1.
                   if status response = 403
                   then (Inl (RequireMFAException ''Multi-Factor Auth Required''), s1)
                   else if status response \<noteq> 200
                   then (Inl (LoginFailedException
                           (''HTTP Code '' @ show_int (status response) @ '': '' @ statusText response)), s1)
                   else eval (member (body response) ''token'') s1
                          (\<lambda>t. MonarchMoney_store_token t s1)))"

definition MonarchMoney_priv_multiFactorAuthenticate :: "env \<Rightarrow> json \<Rightarrow> json \<Rightarrow> json \<Rightarrow> MonarchMoney \<Rightarrow> (error + json) \<times> MonarchMoney" where
  "MonarchMoney_priv_multiFactorAuthenticate e email password code s =
     (let data = [(''password'', password), (''supports_mfa'', JBool True), (''totp'', code),
                  (''trusted_device'', JBool False), (''username'', email)]
      in await (axios_post e (Post getLoginEndpoint (MM_headers s) (JObj data)) s)
           (\<lambda>response s1.
              if status response \<noteq> 200
              then (let c = (case body response of
                               JObj kvs \<Rightarrow> get_prop kvs ''error_code''
                             | _ \<Rightarrow> JUndefined)
                    in (Inl (LoginFailedException
                          (message_of (if truthy c then c else JStr ''Unknown error''))), s1))
              else eval (member (body response) ''token'') s1
                     (\<lambda>t. MonarchMoney_store_token t s1)))"

definition MonarchMoney_login :: "env \<Rightarrow> json \<Rightarrow> json \<Rightarrow> json \<Rightarrow> json \<Rightarrow> json \<Rightarrow> MonarchMoney \<Rightarrow> (error + json) \<times> MonarchMoney" where
  "MonarchMoney_login e email0 password0 useSavedSession0 saveSession0 mfaSecretKey0 s =
     (let email = dflt JNull email0; password = dflt JNull password0;
          useSavedSession = dflt (JBool True) useSavedSession0;
          saveSession = dflt (JBool True) saveSession0;
          mfaSecretKey = dflt JNull mfaSecretKey0
      in if truthy useSavedSession \<and> existsSync s (MM_sessionFile s)
         then await (MonarchMoney_loadSession (MM_sessionFile s) s) (\<lambda>_ s1. (Inr JUndefined, s1))
         else if \<not> truthy email \<or> \<not> truthy password
         then (Inl (LoginFailedException
                 ''Email and password are required to login when not using a saved session.''), s)
         else await (MonarchMoney_priv_loginUser e email password mfaSecretKey s)
                (\<lambda>_ s1. if truthy saveSession
                         then MonarchMoney_saveSession (MM_sessionFile s1) s1
                         else (Inr JUndefined, s1)))"

text \<open>
  The guard of the class's \<open>gqlCall\<close> tests the headers object itself, and an object is
  truthy whatever it holds. The client is then built with one object,
  \<open>new Client({url, headers, timeout})\<close>, where the constructor takes the endpoint first
  and the options second (as \<open>getGraphQLClient\<close> calls it): the client has that object
  for its URL and no headers, and its \<open>request\<close> is rejected with a TypeError before
  anything is sent.
\<close>

definition MonarchMoney_gqlCall :: "env \<Rightarrow> string \<Rightarrow> jsarg \<Rightarrow> jsarg \<Rightarrow> MonarchMoney \<Rightarrow> (error + json) \<times> MonarchMoney" where
  "MonarchMoney_gqlCall e operation graphqlQuery variables s =
     (if \<not> truthy (JObj (map (\<lambda>p. (fst p, JStr (snd p))) (MM_headers s)))
      then (Inl (LoginFailedException ''Make sure you call login() first or provide a session token!''), s)
      else (Inl (TypeError ''Invalid URL''), s))"


section \<open>The request builders\<close>

text \<open>
  Each \<open>gql\<close> document is kept as the operation name and the variables its header declares.
  The module and the class carry the same documents.
\<close>

definition GetAccounts_query :: jsarg where
  "GetAccounts_query = Document ''GetAccounts'' []"




definition GetTransactionDrawer_query :: jsarg where
  "GetTransactionDrawer_query = Document ''GetTransactionDrawer'' [''id'', ''redirectPosted'']"


definition Web_DeleteCategory_query :: jsarg where
  "Web_DeleteCategory_query = Document ''Web_DeleteCategory'' [''id'', ''moveToCategoryId'']"

definition Web_TransactionDrawerUpdateTransaction_query :: jsarg where
  "Web_TransactionDrawerUpdateTransaction_query =
     Document ''Web_TransactionDrawerUpdateTransaction'' [''input'']"

definition Common_DeleteTransactionMutation_query :: jsarg where
  "Common_DeleteTransactionMutation_query = Document ''Common_DeleteTransactionMutation'' [''input'']"

definition Common_UpdateAccount_query :: jsarg where
  "Common_UpdateAccount_query = Document ''Common_UpdateAccount'' [''input'']"

definition Common_DeleteAccount_query :: jsarg where
  "Common_DeleteAccount_query = Document ''Common_DeleteAccount'' [''id'']"

definition Common_ForceRefreshAccountsMutation_query :: jsarg where
  "Common_ForceRefreshAccountsMutation_query =
     Document ''Common_ForceRefreshAccountsMutation'' [''input'']"

definition ForceRefreshAccountsQuery_query :: jsarg where
  "ForceRefreshAccountsQuery_query = Document ''ForceRefreshAccountsQuery'' []"
















text \<open>
  A builder of the class differs from the one of the module in the dispatcher only
  (\<open>this.gqlCall\<close> for \<open>gqlCall\<close>), so each body is written once over the dispatcher
  \<open>call\<close>; \<open>getBudgets\<close>, whose default range differs, is written twice.
\<close>

type_synonym 's dispatcher = "string \<Rightarrow> jsarg \<Rightarrow> jsarg \<Rightarrow> 's \<Rightarrow> (error + json) \<times> 's"


definition getAccounts_body :: "'s dispatcher \<Rightarrow> 's \<Rightarrow> (error + json) \<times> 's" where
  "getAccounts_body call s = call ''GetAccounts'' GetAccounts_query (Value (JObj [])) s"







text \<open>\<open>getTransactionDetails\<close> hands the variables over where the document goes.\<close>

definition getTransactionDetails_body :: "'s dispatcher \<Rightarrow> json \<Rightarrow> json \<Rightarrow> 's \<Rightarrow> (error + json) \<times> 's" where
  "getTransactionDetails_body call transactionId redirectPosted0 s =
     (let redirectPosted = dflt (JBool True) redirectPosted0;
          variables = JObj [(''id'', transactionId), (''redirectPosted'', redirectPosted)]
      in call ''GetTransactionDrawer'' (Value variables) GetTransactionDrawer_query s)"

definition updateTransaction_input :: "(string \<Rightarrow> json) \<Rightarrow> (string \<times> json) list" where
  "updateTransaction_input p =
     (let transactionId = p ''transactionId'';
          categoryId = dflt JNull (p ''categoryId''); merchantName = dflt JNull (p ''merchantName'');
          goalId = dflt JNull (p ''goalId''); amount = dflt JNull (p ''amount'');
          date = dflt JNull (p ''date''); hideFromReports = dflt JNull (p ''hideFromReports'');
          needsReview = dflt JNull (p ''needsReview''); notes = dflt JNull (p ''notes'');
          i0 = [(''id'', transactionId)];
          i1 = set_if (truthy categoryId) ''category'' categoryId i0;
          i2 = set_if (truthy merchantName) ''name'' merchantName i1;
          i3 = set_if (amount \<noteq> JNull) ''amount'' amount i2;
          i4 = set_if (truthy date) ''date'' date i3;
          i5 = set_if (hideFromReports \<noteq> JNull) ''hideFromReports'' (JBool (truthy hideFromReports)) i4;
          i6 = set_if (needsReview \<noteq> JNull) ''needsReview'' (JBool (truthy needsReview)) i5;
          i7 = set_if (goalId \<noteq> JNull) ''goalId'' goalId i6
      in set_if (notes \<noteq> JNull) ''notes'' notes i7)"

definition updateTransaction_body :: "'s dispatcher \<Rightarrow> json \<Rightarrow> 's \<Rightarrow> (error + json) \<times> 's" where
  "updateTransaction_body call args s =
     eval (destructure args) s
       (\<lambda>p. call ''Web_TransactionDrawerUpdateTransaction'' Web_TransactionDrawerUpdateTransaction_query
               (Value (JObj [(''input'', JObj (updateTransaction_input p))])) s)"

definition updateAccount_input :: "json \<Rightarrow> json \<Rightarrow> json \<Rightarrow> json \<Rightarrow> json \<Rightarrow> json \<Rightarrow> json \<Rightarrow> json \<Rightarrow> (string \<times> json) list" where
  "updateAccount_input accountId accountName0 accountBalance0 accountType0 accountSubType0
       includeInNetWorth0 hideFromSummaryList0 hideTransactionsFromReports0 =
     (let accountName = dflt JNull accountName0; accountBalance = dflt JNull accountBalance0;
          accountType = dflt JNull accountType0; accountSubType = dflt JNull accountSubType0;
          includeInNetWorth = dflt JNull includeInNetWorth0;
          hideFromSummaryList = dflt JNull hideFromSummaryList0;
          hideTransactionsFromReports = dflt JNull hideTransactionsFromReports0;
          v0 = [(''id'', accountId)];
          v1 = set_if (truthy accountType) ''type'' accountType v0;
          v2 = set_if (truthy accountSubType) ''subtype'' accountSubType v1;
          v3 = set_if (includeInNetWorth \<noteq> JNull) ''includeInNetWorth'' includeInNetWorth v2;
          v4 = set_if (hideFromSummaryList \<noteq> JNull) ''hideFromList'' hideFromSummaryList v3;
          v5 = set_if (hideTransactionsFromReports \<noteq> JNull) ''hideTransactionsFromReports''
                 hideTransactionsFromReports v4;
          v6 = set_if (truthy accountName) ''name'' accountName v5
      in set_if (accountBalance \<noteq> JNull) ''displayBalance'' accountBalance v6)"

definition updateAccount_body :: "'s dispatcher \<Rightarrow> json \<Rightarrow> json \<Rightarrow> json \<Rightarrow> json \<Rightarrow> json \<Rightarrow> json \<Rightarrow> json \<Rightarrow> json \<Rightarrow> 's \<Rightarrow> (error + json) \<times> 's" where
  "updateAccount_body call accountId accountName accountBalance accountType accountSubType
       includeInNetWorth hideFromSummaryList hideTransactionsFromReports s =
     call ''Common_UpdateAccount'' Common_UpdateAccount_query
       (Value (JObj [(''input'', JObj (updateAccount_input accountId accountName accountBalance
                        accountType accountSubType includeInNetWorth hideFromSummaryList
                        hideTransactionsFromReports))])) s"


section \<open>Mutations that report a flag\<close>

definition deleteTransactionCategory_body :: "'s dispatcher \<Rightarrow> json \<Rightarrow> 's \<Rightarrow> (error + json) \<times> 's" where
  "deleteTransactionCategory_body call categoryId s =
     await (call ''Web_DeleteCategory'' Web_DeleteCategory_query (Value (JObj [(''id'', categoryId)])) s)
       (\<lambda>response s1.
          eval (member2 response ''deleteCategory'' ''deleted'') s1
            (\<lambda>deleted.
               if \<not> truthy deleted
               then eval (member2 response ''deleteCategory'' ''errors'') s1
                      (\<lambda>errors. (Inl (RequestFailedException (message_of errors)), s1))
               else (Inr (JBool True), s1)))"

definition deleteTransaction_body :: "'s dispatcher \<Rightarrow> json \<Rightarrow> 's \<Rightarrow> (error + json) \<times> 's" where
  "deleteTransaction_body call transactionId s =
     await (call ''Common_DeleteTransactionMutation'' Common_DeleteTransactionMutation_query
              (Value (JObj [(''input'', JObj [(''transactionId'', transactionId)])])) s)
       (\<lambda>response s1.
          eval (member2 response ''deleteTransaction'' ''deleted'') s1
            (\<lambda>deleted.
               if \<not> truthy deleted
               then eval (member2 response ''deleteTransaction'' ''errors'') s1
                      (\<lambda>errors. (Inl (RequestFailedException (message_of errors)), s1))
               else (Inr (JBool True), s1)))"

definition deleteAccount_body :: "'s dispatcher \<Rightarrow> json \<Rightarrow> 's \<Rightarrow> (error + json) \<times> 's" where
  "deleteAccount_body call accountId s =
     call ''Common_DeleteAccount'' Common_DeleteAccount_query (Value (JObj [(''id'', accountId)])) s"

definition requestAccountsRefresh_body :: "'s dispatcher \<Rightarrow> json \<Rightarrow> 's \<Rightarrow> (error + json) \<times> 's" where
  "requestAccountsRefresh_body call accountIds s =
     await (call ''Common_ForceRefreshAccountsMutation'' Common_ForceRefreshAccountsMutation_query
              (Value (JObj [(''input'', JObj [(''accountIds'', accountIds)])])) s)
       (\<lambda>response s1.
          eval (member2 response ''forceRefreshAccounts'' ''success'') s1
            (\<lambda>success.
               if \<not> truthy success
               then eval (member2 response ''forceRefreshAccounts'' ''errors'') s1
                      (\<lambda>errors. (Inl (RequestFailedException (message_of errors)), s1))
               else (Inr (JBool True), s1)))"

text \<open>
  The batch: every deletion is started in the order of the input and its rejection is
  caught into its own slot (\<open>.catch((e) => e)\<close>), so the outcomes come back in that order.
\<close>

fun delete_each :: "(json \<Rightarrow> 's \<Rightarrow> (error + json) \<times> 's) \<Rightarrow> json list \<Rightarrow> 's \<Rightarrow> json list \<times> 's" where
  "delete_each del [] s = ([], s)"
| "delete_each del (i # is) s =
     (case del i s of (r, s1) \<Rightarrow>
        (case delete_each del is s1 of (os, s2) \<Rightarrow>
           ((case r of Inl x \<Rightarrow> JError x | Inr v \<Rightarrow> v) # os, s2)))"

text \<open>
  In the class, \<open>this\<close> is the instance. In the module the same text stands in an exported
  function, where \<open>this\<close> is whatever the call site binds: nothing for a function
  imported by name and called directly, the module namespace for a call through it.
\<close>

datatype receiver = NoReceiver | ModuleNamespace

definition deleteTransactionCategories_body :: "(json \<Rightarrow> 's \<Rightarrow> (error + json) \<times> 's) option \<Rightarrow> json \<Rightarrow> 's \<Rightarrow> (error + json) \<times> 's" where
  "deleteTransactionCategories_body method categoryIds s =
     (case categoryIds of
        JArr ids \<Rightarrow>
          (if ids = [] then (Inr (JArr []), s)
           else (case method of
                   None \<Rightarrow> (Inl (TypeError
                      ''Cannot read properties of undefined (reading deleteTransactionCategory)''), s)
                 | Some del \<Rightarrow> (case delete_each del ids s of (os, s1) \<Rightarrow> (Inr (JArr os), s1))))
      | _ \<Rightarrow> (Inl (TypeError ''categoryIds.map is not a function''), s))"

section \<open>Refreshing accounts and waiting\<close>

text \<open>\<open>Array.prototype.includes\<close> compares primitives by value and objects by identity.\<close>

fun same_value_zero :: "json \<Rightarrow> json \<Rightarrow> bool" where
  "same_value_zero (JArr xs) y = False"
| "same_value_zero (JObj kvs) y = False"
| "same_value_zero (JError e) y = False"
| "same_value_zero x y = (x = y)"

definition array_includes :: "json list \<Rightarrow> json \<Rightarrow> bool" where
  "array_includes xs v = list_ex (\<lambda>x. same_value_zero x v) xs"

text \<open>
  \<open>accounts.every(x => !x.hasSyncInProgress && accountIds.includes(x.id))\<close>, and without
  the second conjunct when \<open>accountIds\<close> is null; \<open>every\<close> stops at the first false.
\<close>

fun every_account :: "json list option \<Rightarrow> json list \<Rightarrow> error + json" where
  "every_account accountIds [] = Inr (JBool True)"
| "every_account accountIds (x # xs) =
     (case member x ''hasSyncInProgress'' of
        Inl err \<Rightarrow> Inl err
      | Inr h \<Rightarrow>
          if truthy h then Inr (JBool False)
          else (case accountIds of
                  None \<Rightarrow> every_account accountIds xs
                | Some ids \<Rightarrow>
                    (case member x ''id'' of
                       Inl err \<Rightarrow> Inl err
                     | Inr i \<Rightarrow> if array_includes ids i then every_account accountIds xs
                               else Inr (JBool False))))"

definition isAccountsRefreshComplete_body :: "'s dispatcher \<Rightarrow> json list option \<Rightarrow> 's \<Rightarrow> (error + json) \<times> 's" where
  "isAccountsRefreshComplete_body call accountIds s =
     await (call ''ForceRefreshAccountsQuery'' ForceRefreshAccountsQuery_query (Value (JObj [])) s)
       (\<lambda>response s1.
          eval (member response ''accounts'') s1
            (\<lambda>accounts.
               if \<not> truthy accounts
               then (Inl (RequestFailedException ''Unable to request status of refresh''), s1)
               else (case accounts of
                       JArr xs \<Rightarrow> (every_account accountIds xs, s1)
                     | _ \<Rightarrow> (Inl (TypeError ''response.accounts.every is not a function''), s1))))"

text \<open>
  The loop of \<open>requestAccountsRefreshAndWait\<close>. A timer of \<open>delay * 1000\<close> milliseconds
  moves the clock by that much, and the awaited status call by the time it takes. The loop
  need not end (a zero delay with a status that never completes and takes no time), so it
  returns an option.
\<close>

partial_function (option) wait_loop :: "'a io_scheme dispatcher \<Rightarrow> json list \<Rightarrow> nat \<Rightarrow> nat \<Rightarrow> nat \<Rightarrow> json \<Rightarrow> 'a io_scheme \<Rightarrow> ((error + json) \<times> 'a io_scheme) option" where
  "wait_loop call accountIds start tmo delay refreshed s =
     (if \<not> truthy refreshed \<and> clock s \<le> start + tmo * 1000
      then (let s1 = s\<lparr>clock := clock s + delay * 1000\<rparr>;
                r = isAccountsRefreshComplete_body call (Some accountIds) s1
            in if isl (fst r) then Some r
               else wait_loop call accountIds start tmo delay (projr (fst r)) (snd r))
      else Some (Inr refreshed, s))"

declare wait_loop.simps [code]

fun map_id :: "json list \<Rightarrow> error + json list" where
  "map_id [] = Inr []"
| "map_id (x # xs) =
     (case member x ''id'' of
        Inl err \<Rightarrow> Inl err
      | Inr i \<Rightarrow> (case map_id xs of Inl err \<Rightarrow> Inl err | Inr is \<Rightarrow> Inr (i # is)))"

text \<open>\<open>accountData.accounts.map((x) => x.id)\<close>\<close>

definition account_ids_of :: "json \<Rightarrow> error + json list" where
  "account_ids_of accountData =
     (case member accountData ''accounts'' of
        Inl err \<Rightarrow> Inl err
      | Inr (JArr xs) \<Rightarrow> map_id xs
      | Inr JUndefined \<Rightarrow> Inl (TypeError ''Cannot read properties of undefined (reading map)'')
      | Inr JNull \<Rightarrow> Inl (TypeError ''Cannot read properties of null (reading map)'')
      | Inr _ \<Rightarrow> Inl (TypeError ''accountData.accounts.map is not a function''))"

definition requestAccountsRefreshAndWait_body :: "'a io_scheme dispatcher \<Rightarrow> json list option \<Rightarrow> nat \<Rightarrow> nat \<Rightarrow> 'a io_scheme \<Rightarrow> ((error + json) \<times> 'a io_scheme) option" where
  "requestAccountsRefreshAndWait_body call accountIds0 tmo delay s =
     (let fetched = (case accountIds0 of
                       Some ids \<Rightarrow> (Inr ids, s)
                     | None \<Rightarrow> await (getAccounts_body call s)
                                 (\<lambda>accountData s1. (account_ids_of accountData, s1)))
      in case fetched of
           (Inl x, s1) \<Rightarrow> Some (Inl x, s1)
         | (Inr accountIds, s1) \<Rightarrow>
             (case requestAccountsRefresh_body call (JArr accountIds) s1 of
                (Inl x, s2) \<Rightarrow> Some (Inl x, s2)
              | (Inr _, s2) \<Rightarrow> wait_loop call accountIds (clock s2) tmo delay (JBool False) s2))"

section \<open>Uploading a balance history\<close>


definition uploadAccountBalanceHistory :: "env \<Rightarrow> json \<Rightarrow> json \<Rightarrow> session \<Rightarrow> (error + json) \<times> session" where
  "uploadAccountBalanceHistory e accountId csvContent s =
     (if \<not> truthy accountId \<or> \<not> truthy csvContent
      then (Inl (RequestFailedException ''accountId and csvContent cannot be empty''), s)
      else (Inl (ReferenceError ''axios is not defined''), s))"

section \<open>The two interfaces\<close>






definition getTransactionDetails :: "env \<Rightarrow> json \<Rightarrow> json \<Rightarrow> session \<Rightarrow> (error + json) \<times> session" where
  "getTransactionDetails e = getTransactionDetails_body (gqlCall e)"



definition deleteTransactionCategory :: "env \<Rightarrow> json \<Rightarrow> session \<Rightarrow> (error + json) \<times> session" where
  "deleteTransactionCategory e = deleteTransactionCategory_body (gqlCall e)"

definition deleteTransactionCategories :: "env \<Rightarrow> receiver \<Rightarrow> json \<Rightarrow> session \<Rightarrow> (error + json) \<times> session" where
  "deleteTransactionCategories e this =
     deleteTransactionCategories_body
       (case this of NoReceiver \<Rightarrow> None | ModuleNamespace \<Rightarrow> Some (deleteTransactionCategory e))"

definition deleteTransaction :: "env \<Rightarrow> json \<Rightarrow> session \<Rightarrow> (error + json) \<times> session" where
  "deleteTransaction e = deleteTransaction_body (gqlCall e)"

definition deleteAccount :: "env \<Rightarrow> json \<Rightarrow> session \<Rightarrow> (error + json) \<times> session" where
  "deleteAccount e = deleteAccount_body (gqlCall e)"


definition isAccountsRefreshComplete :: "env \<Rightarrow> json list option \<Rightarrow> session \<Rightarrow> (error + json) \<times> session" where
  "isAccountsRefreshComplete e = isAccountsRefreshComplete_body (gqlCall e)"

















text \<open>The methods of the class, over \<open>this.gqlCall\<close>.\<close>

definition MonarchMoney_getAccounts :: "env \<Rightarrow> MonarchMoney \<Rightarrow> (error + json) \<times> MonarchMoney" where
  "MonarchMoney_getAccounts e = getAccounts_body (MonarchMoney_gqlCall e)"





definition MonarchMoney_getTransactionDetails :: "env \<Rightarrow> json \<Rightarrow> json \<Rightarrow> MonarchMoney \<Rightarrow> (error + json) \<times> MonarchMoney" where
  "MonarchMoney_getTransactionDetails e = getTransactionDetails_body (MonarchMoney_gqlCall e)"

definition MonarchMoney_updateTransaction :: "env \<Rightarrow> json \<Rightarrow> MonarchMoney \<Rightarrow> (error + json) \<times> MonarchMoney" where
  "MonarchMoney_updateTransaction e = updateTransaction_body (MonarchMoney_gqlCall e)"

definition MonarchMoney_updateAccount :: "env \<Rightarrow> json \<Rightarrow> json \<Rightarrow> json \<Rightarrow> json \<Rightarrow> json \<Rightarrow> json \<Rightarrow> json \<Rightarrow> json \<Rightarrow> MonarchMoney \<Rightarrow> (error + json) \<times> MonarchMoney" where
  "MonarchMoney_updateAccount e = updateAccount_body (MonarchMoney_gqlCall e)"

definition MonarchMoney_deleteTransactionCategory :: "env \<Rightarrow> json \<Rightarrow> MonarchMoney \<Rightarrow> (error + json) \<times> MonarchMoney" where
  "MonarchMoney_deleteTransactionCategory e = deleteTransactionCategory_body (MonarchMoney_gqlCall e)"

definition MonarchMoney_deleteTransactionCategories :: "env \<Rightarrow> json \<Rightarrow> MonarchMoney \<Rightarrow> (error + json) \<times> MonarchMoney" where
  "MonarchMoney_deleteTransactionCategories e =
     deleteTransactionCategories_body (Some (MonarchMoney_deleteTransactionCategory e))"

definition MonarchMoney_deleteTransaction :: "env \<Rightarrow> json \<Rightarrow> MonarchMoney \<Rightarrow> (error + json) \<times> MonarchMoney" where
  "MonarchMoney_deleteTransaction e = deleteTransaction_body (MonarchMoney_gqlCall e)"

definition MonarchMoney_deleteAccount :: "env \<Rightarrow> json \<Rightarrow> MonarchMoney \<Rightarrow> (error + json) \<times> MonarchMoney" where
  "MonarchMoney_deleteAccount e = deleteAccount_body (MonarchMoney_gqlCall e)"

definition MonarchMoney_requestAccountsRefresh :: "env \<Rightarrow> json \<Rightarrow> MonarchMoney \<Rightarrow> (error + json) \<times> MonarchMoney" where
  "MonarchMoney_requestAccountsRefresh e = requestAccountsRefresh_body (MonarchMoney_gqlCall e)"

definition MonarchMoney_isAccountsRefreshComplete :: "env \<Rightarrow> json list option \<Rightarrow> MonarchMoney \<Rightarrow> (error + json) \<times> MonarchMoney" where
  "MonarchMoney_isAccountsRefreshComplete e = isAccountsRefreshComplete_body (MonarchMoney_gqlCall e)"

definition MonarchMoney_requestAccountsRefreshAndWait :: "env \<Rightarrow> json list option \<Rightarrow> nat \<Rightarrow> nat \<Rightarrow> MonarchMoney \<Rightarrow> ((error + json) \<times> MonarchMoney) option" where
  "MonarchMoney_requestAccountsRefreshAndWait e = requestAccountsRefreshAndWait_body (MonarchMoney_gqlCall e)"


section \<open>Stubs of the remote service, and what a request carries\<close>

text \<open>
  A remote that answers every post with one response and every query with one payload,
  at once.
\<close>

definition stub_env :: "http_response \<Rightarrow> json \<Rightarrow> env" where
  "stub_env r d =
     \<lparr> http = (\<lambda>h q. Inr r), graphql = (\<lambda>h q. Inr d), latency = (\<lambda>h q. 0),
       isoDate = (\<lambda>y m d. ''2024-01-01''), year = 2024, month = 0 \<rparr>"

definition empty_io :: io where
  "empty_io = \<lparr> sent = [], clock = 0, files = [] \<rparr>"

text \<open>The property \<open>k\<close> of an element of a decoded list.\<close>

definition field :: "json \<Rightarrow> string \<Rightarrow> json" where
  "field x k = (case x of JObj kvs \<Rightarrow> get_prop kvs k | _ \<Rightarrow> JUndefined)"





fun request_headers :: "request \<Rightarrow> (string \<times> string) list" where
  "request_headers (Post u h b) = h"
| "request_headers (GraphQL u h t d v) = h"









text \<open>
  A remote for the batch deletion: it refuses to delete the category \<open>bad\<close> and deletes
  any other.
\<close>

fun delete_stub :: "json \<Rightarrow> request list \<Rightarrow> request \<Rightarrow> error + json" where
  "delete_stub bad h (GraphQL u hs t d (Value (JObj [(k, i)]))) =
     Inr (JObj [(''deleteCategory'', JObj [(''deleted'', JBool (i \<noteq> bad)), (''errors'', JArr [])])])"
| "delete_stub bad h r = Inl (Rejected ''unexpected request'')"

definition delete_env :: "json \<Rightarrow> env" where
  "delete_env bad =
     \<lparr> http = (\<lambda>h q. Inl (Rejected ''unexpected request'')), graphql = delete_stub bad,
       latency = (\<lambda>h q. 0), isoDate = (\<lambda>y m d. ''2024-01-01''), year = 2024, month = 0 \<rparr>"


text \<open>The store holds a token: the Authorization header is there and not empty.\<close>

definition authorized :: "session \<Rightarrow> bool" where
  "authorized s = (case map_of (headers s) AUTH_HEADER_KEY of None \<Rightarrow> False | Some a \<Rightarrow> a \<noteq> [])"


section \<open>Basic facts\<close>

lemma map_of_set_prop_same: "map_of (set_prop k v xs) k = Some v"
  by (induction xs) auto


lemma gqlCall_headers: "headers (snd (gqlCall e op q v s)) = headers s"
  by (simp add: gqlCall_def client_request_def Let_def split: sum.splits prod.splits)

lemma gqlCall_token: "token (snd (gqlCall e op q v s)) = token s"
  by (simp add: gqlCall_def client_request_def Let_def split: sum.splits prod.splits)

lemma gqlCall_authorized:
  assumes "map_of (headers s) AUTH_HEADER_KEY = Some a" and "a \<noteq> []"
  shows "gqlCall e op q v s =
           (graphql e (sent s) (GraphQL GQL_ENDPOINT (headers s) 10000 q v),
            s\<lparr>sent := sent s @ [GraphQL GQL_ENDPOINT (headers s) 10000 q v],
              clock := clock s + latency e (sent s) (GraphQL GQL_ENDPOINT (headers s) 10000 q v)\<rparr>)"
  using assms
  by (simp add: gqlCall_def getGraphQLClient_def getHeaders_def client_request_def timeout_def Let_def)

lemma member_raises_TypeError: "member v k = Inl x \<Longrightarrow> \<exists>m. x = TypeError m"
  by (cases v) auto

lemma MonarchMoney_gqlCall_fails:
  "MonarchMoney_gqlCall e op q v c = (Inl (TypeError ''Invalid URL''), c)"
  by (simp add: MonarchMoney_gqlCall_def)

section \<open>Login and the credential store\<close>

text \<open>
  The module's login does what the specification says of a 200 response: the token of
  the body becomes the active token and the Authorization header, and a query call in
  any later state with these headers sends a request that carries it.
\<close>

lemma loginUser_200_sets_header:
  assumes "status r = 200" and "body r = JObj [(''token'', JStr T)]" and "\<not> truthy mfaSecretKey"
  shows "fst (loginUser (e\<lparr>http := \<lambda>h q. Inr r\<rparr>) email password mfaSecretKey s) = Inr JUndefined"
    and "map_of (getHeaders (snd (loginUser (e\<lparr>http := \<lambda>h q. Inr r\<rparr>) email password mfaSecretKey s)))
           AUTH_HEADER_KEY = Some (''Token '' @ T)"
    and "getToken (snd (loginUser (e\<lparr>http := \<lambda>h q. Inr r\<rparr>) email password mfaSecretKey s)) = JStr T"
  using assms
  by (simp_all add: loginUser_def Let_def setToken_def getHeaders_def getToken_def AUTH_HEADER_KEY_def
      map_of_set_prop_same get_prop_def)

lemma query_after_login_carries_token:
  assumes "map_of (headers s) AUTH_HEADER_KEY = Some (''Token '' @ T)"
  shows "\<exists>req. sent (snd (gqlCall e op q v s)) = sent s @ [req] \<and>
           map_of (request_headers req) AUTH_HEADER_KEY = Some (''Token '' @ T) \<and>
           headers (snd (gqlCall e op q v s)) = headers s"
  using assms by (simp add: gqlCall_authorized [where a = "''Token '' @ T"])

text \<open>
  Claim C1. After a login that the endpoint answers with HTTP 200 and the body
  \<open>{token: "T"}\<close>, the credential store reports the Authorization header \<open>Token T\<close>.
  The class's \<open>_loginUser\<close> does not get there: it calls \<open>this.setToken\<close>, which the
  class does not define, so on a fresh instance the call ends in a TypeError after the
  request, the token is still null and the headers hold no Authorization entry.
\<close>

theorem MonarchMoney_login_200_stores_no_token:
  "MonarchMoney_priv_loginUser
      (stub_env \<lparr>status = 200, statusText = ''OK'', body = JObj [(''token'', JStr ''T'')]\<rparr> JNull)
      (JStr ''me@example.com'') (JStr ''secret'') JNull
      (MonarchMoney_new empty_io ''mm_session.json'' 10000 JNull)
   = (Inl (TypeError ''this.setToken is not a function''),
      \<lparr> sent = [Post getLoginEndpoint [(''Client-Platform'', ''web'')]
             (JObj [(''password'', JStr ''secret''), (''supports_mfa'', JBool True),
                    (''trusted_device'', JBool False), (''username'', JStr ''me@example.com'')])],
        clock = 0, files = [],
        MM_headers = [(''Client-Platform'', ''web'')], MM_sessionFile = ''mm_session.json'',
        MM_token = JNull, MM_timeout = 10000 \<rparr>)"
proof -
  have "MonarchMoney_store_token (JStr ''T'') c = (Inl (TypeError ''this.setToken is not a function''), c)"
    for c
    by (simp add: MonarchMoney_store_token_def MonarchMoney_setToken_def)
  then show ?thesis
    by (simp add: MonarchMoney_priv_loginUser_def MonarchMoney_new_def stub_env_def empty_io_def
        axios_post_def await_def eval_def Let_def set_if_def get_prop_def)
qed

theorem MonarchMoney_login_200_stores_no_token_witness:
  "map_of (MM_headers (snd (MonarchMoney_priv_loginUser
      (stub_env \<lparr>status = 200, statusText = ''OK'', body = JObj [(''token'', JStr ''T'')]\<rparr> JNull)
      (JStr ''me@example.com'') (JStr ''secret'') JNull
      (MonarchMoney_new empty_io ''mm_session.json'' 10000 JNull)))) ''Authorization'' = None"
  using MonarchMoney_login_200_stores_no_token by simp

lemma loginUser_403:
  assumes "status r = 403"
    and "sent (snd (loginUser (e\<lparr>http := \<lambda>h q. Inr r\<rparr>) email password mfaSecretKey s)) \<noteq> sent s"
  shows "fst (loginUser (e\<lparr>http := \<lambda>h q. Inr r\<rparr>) email password mfaSecretKey s)
           = Inl (RequireMFAException ''Multi-Factor Auth Required'') \<and>
         getHeaders (snd (loginUser (e\<lparr>http := \<lambda>h q. Inr r\<rparr>) email password mfaSecretKey s))
           = getHeaders s \<and>
         getToken (snd (loginUser (e\<lparr>http := \<lambda>h q. Inr r\<rparr>) email password mfaSecretKey s))
           = getToken s"
  using assms by (simp add: loginUser_def Let_def getHeaders_def getToken_def split: if_splits)

lemma show_int_403: "show_int 403 = ''403''"
  by (simp add: show_int_def)

lemma axios_post_rejects_403:
  assumes "status r = 403"
  shows "axios_post (e\<lparr>http := \<lambda>h q. Inr r\<rparr>) req c
           = (Inl (AxiosError ''Request failed with status code 403''), c\<lparr>sent := sent c @ [req]\<rparr>)"
  using assms by (simp add: axios_post_def Let_def show_int_403)

lemma axios_post_resolves:
  assumes "axios_post (e\<lparr>http := \<lambda>h q. Inr r\<rparr>) req c = (Inr response, c1)"
  shows "response = r \<and> 200 \<le> status r \<and> status r < 300"
  using assms by (simp add: axios_post_def Let_def split: if_splits)

text \<open>
  Claim C2. When the login endpoint answers a login attempt with HTTP 403, the call
  raises RequireMFAException and leaves the credential store as it was. The module's
  \<open>loginUser\<close> does so. The class's \<open>_loginUser\<close> does not: \<open>axios.post\<close> rejects a 403
  response itself, so the call ends in an AxiosError after the request and the test of the
  status is never reached; whatever the endpoint answers, \<open>_loginUser\<close> raises no
  RequireMFAException.
\<close>

theorem MonarchMoney_login_403_raises_AxiosError:
  "(status r = 403 \<and> \<not> truthy mfaSecretKey \<longrightarrow>
      MonarchMoney_priv_loginUser (e\<lparr>http := \<lambda>h q. Inr r\<rparr>) email password mfaSecretKey c
        = (Inl (AxiosError ''Request failed with status code 403''),
           c\<lparr>sent := sent c @ [Post getLoginEndpoint (MM_headers c)
                (JObj [(''password'', password), (''supports_mfa'', JBool True),
                       (''trusted_device'', JBool False), (''username'', email)])]\<rparr>)) \<and>
   (\<forall>m. fst (MonarchMoney_priv_loginUser (e\<lparr>http := \<lambda>h q. Inr r\<rparr>) email password mfaSecretKey c)
          \<noteq> Inl (RequireMFAException m))"
proof (intro conjI impI allI)
  assume "status r = 403 \<and> \<not> truthy mfaSecretKey"
  then show "MonarchMoney_priv_loginUser (e\<lparr>http := \<lambda>h q. Inr r\<rparr>) email password mfaSecretKey c
        = (Inl (AxiosError ''Request failed with status code 403''),
           c\<lparr>sent := sent c @ [Post getLoginEndpoint (MM_headers c)
                (JObj [(''password'', password), (''supports_mfa'', JBool True),
                       (''trusted_device'', JBool False), (''username'', email)])]\<rparr>)"
    by (simp add: MonarchMoney_priv_loginUser_def Let_def axios_post_rejects_403 await_def)
next
  fix m
  let ?req = "Post getLoginEndpoint (MM_headers c)
                (JObj [(''password'', password), (''supports_mfa'', JBool True),
                       (''trusted_device'', JBool False), (''username'', email)])"
  let ?e = "e\<lparr>http := \<lambda>h q. Inr r\<rparr>"
  show "fst (MonarchMoney_priv_loginUser ?e email password mfaSecretKey c)
          \<noteq> Inl (RequireMFAException m)"
  proof (cases "truthy mfaSecretKey")
    case True
    then show ?thesis
      by (simp add: MonarchMoney_priv_loginUser_def Let_def)
  next
    case False
    obtain a c1 where post: "axios_post ?e ?req c = (a, c1)"
      by (cases "axios_post ?e ?req c") simp
    show ?thesis
    proof (cases a)
      case (Inl x)
      then have "x = AxiosError (''Request failed with status code '' @ show_int (status r))"
        using post by (simp add: axios_post_def Let_def split: if_splits)
      then show ?thesis
        using False post Inl by (simp add: MonarchMoney_priv_loginUser_def Let_def await_def)
    next
      case (Inr response)
      with post have "axios_post ?e ?req c = (Inr response, c1)"
        by simp
      then have ok: "response = r \<and> 200 \<le> status r \<and> status r < 300"
        by (rule axios_post_resolves)
      then have "status r \<noteq> 403"
        by arith
      then show ?thesis
        using False post Inr ok
        by (auto simp add: MonarchMoney_priv_loginUser_def Let_def await_def eval_def
            MonarchMoney_store_token_def MonarchMoney_setToken_def
            split: sum.splits dest: member_raises_TypeError)
    qed
  qed
qed

theorem MonarchMoney_login_403_raises_AxiosError_witness:
  "(let r = \<lparr>status = 403, statusText = ''Forbidden'', body = JObj []\<rparr>;
        c = MonarchMoney_new empty_io ''mm_session.json'' 10000 JNull;
        p = MonarchMoney_priv_loginUser (stub_env r JNull) (JStr ''me@example.com'') (JStr ''secret'')
              JNull c
    in status r = 403 \<and> \<not> truthy JNull \<and>
       fst p = Inl (AxiosError ''Request failed with status code 403'') \<and>
       fst p \<noteq> Inl (RequireMFAException ''Multi-Factor Auth Required'') \<and>
       MM_headers (snd p) = [(''Client-Platform'', ''web'')] \<and> MM_token (snd p) = JNull)"
proof -
  let ?r = "\<lparr>status = 403, statusText = ''Forbidden'', body = JObj []\<rparr>"
  let ?e = "stub_env ?r JNull"
  let ?c = "MonarchMoney_new empty_io ''mm_session.json'' 10000 JNull"
  have e: "?e\<lparr>http := \<lambda>h q. Inr ?r\<rparr> = ?e"
    by (simp add: stub_env_def)
  have store: "MM_headers ?c = [(''Client-Platform'', ''web'')]" "MM_token ?c = JNull"
    by (simp_all add: MonarchMoney_new_def empty_io_def set_if_def)
  from MonarchMoney_login_403_raises_AxiosError [of ?r JNull ?e "JStr ''me@example.com''"
      "JStr ''secret''" ?c]
  have "MonarchMoney_priv_loginUser ?e (JStr ''me@example.com'') (JStr ''secret'') JNull ?c
        = (Inl (AxiosError ''Request failed with status code 403''),
           ?c\<lparr>sent := sent ?c @ [Post getLoginEndpoint (MM_headers ?c)
                (JObj [(''password'', JStr ''secret''), (''supports_mfa'', JBool True),
                       (''trusted_device'', JBool False), (''username'', JStr ''me@example.com'')])]\<rparr>)"
    unfolding e by simp
  then show ?thesis
    unfolding Let_def using store by simp
qed

section \<open>Saved sessions\<close>

text \<open>
  Claim C6. Saving a session while \<open>t\<close> is the active token and loading the file back
  restores \<open>t\<close>. \<open>saveSession\<close> writes \<open>{token: t}\<close>, but \<open>loadSession\<close> ends at
  \<open>this.setToken\<close>, which the class does not define: a fresh instance that loads the
  file saved for the token \<open>abc\<close> gets a TypeError and keeps a null token and no
  Authorization header.
\<close>

theorem MonarchMoney_session_roundtrip_fails:
  "(let a = MonarchMoney_new empty_io ''mm_session.json'' 10000 (JStr ''abc'');
        saved = snd (MonarchMoney_saveSession ''mm_session.json'' a);
        b = MonarchMoney_new \<lparr>sent = [], clock = 0, files = files saved\<rparr> ''mm_session.json'' 10000 JNull
    in files saved = [(''mm_session.json'', JObj [(''token'', JStr ''abc'')])] \<and>
       MonarchMoney_loadSession ''mm_session.json'' b
         = (Inl (TypeError ''this.setToken is not a function''), b) \<and>
       MM_token b = JNull \<and> map_of (MM_headers b) ''Authorization'' = None)"
proof -
  have saved: "files (snd (MonarchMoney_saveSession ''mm_session.json''
                 (MonarchMoney_new empty_io ''mm_session.json'' 10000 (JStr ''abc''))))
               = [(''mm_session.json'', JObj [(''token'', JStr ''abc'')])]"
    by (simp add: MonarchMoney_saveSession_def MonarchMoney_new_def empty_io_def set_if_def)
  have fresh: "MonarchMoney_new \<lparr>sent = [], clock = 0, files = fs\<rparr> ''mm_session.json'' 10000 JNull
                = \<lparr> sent = [], clock = 0, files = fs, MM_headers = [(''Client-Platform'', ''web'')],
                    MM_sessionFile = ''mm_session.json'', MM_token = JNull, MM_timeout = 10000 \<rparr>" for fs
    by (simp add: MonarchMoney_new_def set_if_def)
  have load: "MonarchMoney_loadSession ''mm_session.json'' b
                = (Inl (TypeError ''this.setToken is not a function''), b)"
    if "files b = [(''mm_session.json'', JObj [(''token'', JStr ''abc'')])]" for b
    using that
    by (simp add: MonarchMoney_loadSession_def eval_def MonarchMoney_store_token_def
        MonarchMoney_setToken_def)
  show ?thesis
    by (simp add: Let_def saved fresh load)
qed

theorem MonarchMoney_session_roundtrip_fails_witness:
  "fst (MonarchMoney_loadSession ''mm_session.json''
     (MonarchMoney_new
        \<lparr>sent = [], clock = 0,
           files = files (snd (MonarchMoney_saveSession ''mm_session.json''
                     (MonarchMoney_new empty_io ''mm_session.json'' 10000 (JStr ''abc''))))\<rparr>
        ''mm_session.json'' 10000 JNull))
   = Inl (TypeError ''this.setToken is not a function'')"
proof -
  let ?b = "MonarchMoney_new
        \<lparr>sent = [], clock = 0,
           files = files (snd (MonarchMoney_saveSession ''mm_session.json''
                     (MonarchMoney_new empty_io ''mm_session.json'' 10000 (JStr ''abc''))))\<rparr>
        ''mm_session.json'' 10000 JNull"
  from MonarchMoney_session_roundtrip_fails
  have "MonarchMoney_loadSession ''mm_session.json'' ?b
          = (Inl (TypeError ''this.setToken is not a function''), ?b)"
    unfolding Let_def by blast
  then show ?thesis
    by (simp only: fst_conv)
qed

section \<open>Date ranges\<close>




















section \<open>Mutations that report a deleted flag\<close>

lemma stub_env_graphql: "(stub_env r d)\<lparr>graphql := \<lambda>h q. Inr d'\<rparr> = stub_env r d'"
  by (simp add: stub_env_def)

lemma deleteTransaction_body_not_deleted:
  assumes "call ''Common_DeleteTransactionMutation'' Common_DeleteTransactionMutation_query
             (Value (JObj [(''input'', JObj [(''transactionId'', transactionId)])])) s
           = (Inr (JObj [(''deleteTransaction'', JObj payload)]), s1)"
    and "\<not> truthy (get_prop payload ''deleted'')"
  shows "deleteTransaction_body call transactionId s
           = (Inl (RequestFailedException (message_of (get_prop payload ''errors''))), s1)"
  using assms
  by (simp add: deleteTransaction_body_def await_def eval_def member2_def get_prop_def)

lemma deleteTransactionCategory_body_not_deleted:
  assumes "call ''Web_DeleteCategory'' Web_DeleteCategory_query (Value (JObj [(''id'', categoryId)])) s
           = (Inr (JObj [(''deleteCategory'', JObj payload)]), s1)"
    and "\<not> truthy (get_prop payload ''deleted'')"
  shows "deleteTransactionCategory_body call categoryId s
           = (Inl (RequestFailedException (message_of (get_prop payload ''errors''))), s1)"
  using assms
  by (simp add: deleteTransactionCategory_body_def await_def eval_def member2_def get_prop_def)

text \<open>
  Claim C4, as the code has it. With a token in the store, when the response reports a
  falsy \<open>deleted\<close> flag, deleteTransaction and deleteTransactionCategory raise a
  RequestFailedException instead of returning; deleteAccount inspects nothing and returns
  the response as it came.
\<close>

theorem deleted_flag_handling:
  assumes "map_of (headers s) AUTH_HEADER_KEY = Some a" and "a \<noteq> []"
    and "\<not> truthy (get_prop payload ''deleted'')"
  shows "(\<exists>m. fst (deleteTransaction
                     (e\<lparr>graphql := \<lambda>h q. Inr (JObj [(''deleteTransaction'', JObj payload)])\<rparr>)
                     transactionId s)
               = Inl (RequestFailedException m)) \<and>
         (\<exists>m. fst (deleteTransactionCategory
                     (e\<lparr>graphql := \<lambda>h q. Inr (JObj [(''deleteCategory'', JObj payload)])\<rparr>)
                     categoryId s)
               = Inl (RequestFailedException m)) \<and>
         fst (deleteAccount (e\<lparr>graphql := \<lambda>h q. Inr (JObj [(''deleteAccount'', JObj payload)])\<rparr>)
                accountId s)
           = Inr (JObj [(''deleteAccount'', JObj payload)])"
proof (intro conjI)
  note auth = gqlCall_authorized [OF assms(1,2)]
  have "fst (deleteTransaction (e\<lparr>graphql := \<lambda>h q. Inr (JObj [(''deleteTransaction'', JObj payload)])\<rparr>)
                transactionId s)
           = Inl (RequestFailedException (message_of (get_prop payload ''errors'')))"
    unfolding deleteTransaction_def
    by (subst deleteTransaction_body_not_deleted [OF _ assms(3)]) (simp_all add: auth)
  then show "\<exists>m. fst (deleteTransaction
                     (e\<lparr>graphql := \<lambda>h q. Inr (JObj [(''deleteTransaction'', JObj payload)])\<rparr>)
                     transactionId s)
               = Inl (RequestFailedException m)"
    by (rule exI)
  have "fst (deleteTransactionCategory (e\<lparr>graphql := \<lambda>h q. Inr (JObj [(''deleteCategory'', JObj payload)])\<rparr>)
                categoryId s)
           = Inl (RequestFailedException (message_of (get_prop payload ''errors'')))"
    unfolding deleteTransactionCategory_def
    by (subst deleteTransactionCategory_body_not_deleted [OF _ assms(3)]) (simp_all add: auth)
  then show "\<exists>m. fst (deleteTransactionCategory
                     (e\<lparr>graphql := \<lambda>h q. Inr (JObj [(''deleteCategory'', JObj payload)])\<rparr>)
                     categoryId s)
               = Inl (RequestFailedException m)"
    by (rule exI)
  show "fst (deleteAccount (e\<lparr>graphql := \<lambda>h q. Inr (JObj [(''deleteAccount'', JObj payload)])\<rparr>)
                accountId s)
           = Inr (JObj [(''deleteAccount'', JObj payload)])"
    by (simp add: deleteAccount_def deleteAccount_body_def auth)
qed

theorem deleted_flag_handling_witness:
  "(let payload = [(''deleted'', JBool False), (''errors'', JArr [JObj [(''message'', JStr ''Not allowed'')]])];
        r = \<lparr>status = 200, statusText = ''OK'', body = JNull\<rparr>;
        s = initial_session (JStr ''T'')
    in map_of (headers s) AUTH_HEADER_KEY = Some ''Token T'' \<and>
       \<not> truthy (get_prop payload ''deleted'') \<and>
       (\<exists>m. fst (deleteTransaction (stub_env r (JObj [(''deleteTransaction'', JObj payload)]))
                   (JStr ''t1'') s)
             = Inl (RequestFailedException m)) \<and>
       (\<exists>m. fst (deleteTransactionCategory (stub_env r (JObj [(''deleteCategory'', JObj payload)]))
                   (JStr ''c1'') s)
             = Inl (RequestFailedException m)) \<and>
       fst (deleteAccount (stub_env r (JObj [(''deleteAccount'', JObj payload)])) (JStr ''a1'') s)
         = Inr (JObj [(''deleteAccount'', JObj payload)]))"
proof -
  let ?payload = "[(''deleted'', JBool False), (''errors'', JArr [JObj [(''message'', JStr ''Not allowed'')]])]"
  let ?r = "\<lparr>status = 200, statusText = ''OK'', body = JNull\<rparr>"
  let ?s = "initial_session (JStr ''T'')"
  have auth: "map_of (headers ?s) AUTH_HEADER_KEY = Some ''Token T''"
    by (simp add: initial_session_def AUTH_HEADER_KEY_def)
  have token: "''Token T'' \<noteq> []"
    by simp
  have flag: "\<not> truthy (get_prop ?payload ''deleted'')"
    by (simp add: get_prop_def)
  from deleted_flag_handling [OF auth token flag, of "stub_env ?r JNull" "JStr ''t1''" "JStr ''c1''"
      "JStr ''a1''"]
  show ?thesis
    unfolding Let_def stub_env_graphql using auth flag by simp
qed

text \<open>
  Claim C4 as written has deleteAccount raise as well. With a token in the store and
  the response \<open>{deleteAccount: {deleted: false, errors: [...]}}\<close> it returns that
  response.
\<close>

theorem deleteAccount_returns_undeleted:
  "fst (deleteAccount
     (stub_env \<lparr>status = 200, statusText = ''OK'', body = JNull\<rparr>
        (JObj [(''deleteAccount'', JObj [(''deleted'', JBool False),
                  (''errors'', JArr [JObj [(''message'', JStr ''Not allowed'')]])])]))
     (JStr ''acc1'') (initial_session (JStr ''T'')))
   = Inr (JObj [(''deleteAccount'', JObj [(''deleted'', JBool False),
                  (''errors'', JArr [JObj [(''message'', JStr ''Not allowed'')]])])])"
proof -
  have auth: "map_of (headers (initial_session (JStr ''T''))) AUTH_HEADER_KEY = Some ''Token T''"
    by (simp add: initial_session_def AUTH_HEADER_KEY_def)
  show ?thesis
    by (simp add: deleteAccount_def deleteAccount_body_def gqlCall_authorized [OF auth] stub_env_def)
qed

section \<open>The status of a refresh\<close>

lemma member_field: "x \<noteq> JNull \<Longrightarrow> x \<noteq> JUndefined \<Longrightarrow> member x k = Inr (field x k)"
  by (cases x) (simp_all add: field_def)

lemma every_account_some:
  assumes "\<forall>x\<in>set xs. x \<noteq> JNull \<and> x \<noteq> JUndefined"
  shows "every_account (Some ids) xs
           = Inr (JBool (\<forall>x\<in>set xs. \<not> truthy (field x ''hasSyncInProgress'') \<and>
                                     array_includes ids (field x ''id'')))"
  using assms by (induction xs) (auto simp add: member_field)

lemma every_account_none:
  assumes "\<forall>x\<in>set xs. x \<noteq> JNull \<and> x \<noteq> JUndefined"
  shows "every_account None xs = Inr (JBool (\<forall>x\<in>set xs. \<not> truthy (field x ''hasSyncInProgress'')))"
  using assms by (induction xs) (auto simp add: member_field)

lemma isAccountsRefreshComplete_body_accounts:
  assumes "call ''ForceRefreshAccountsQuery'' ForceRefreshAccountsQuery_query (Value (JObj [])) s
             = (Inr (JObj kvs), s1)"
    and "get_prop kvs ''accounts'' = JArr xs"
  shows "isAccountsRefreshComplete_body call accountIds s = (every_account accountIds xs, s1)"
  using assms by (simp add: isAccountsRefreshComplete_body_def await_def eval_def)


text \<open>
  The module's function. Given the accounts of the status response (none of them
  \<open>null\<close>) and a token in the store, the call with a list
  \<open>accountIds\<close> returns true exactly when every account has no sync in progress and has
  its id among \<open>accountIds\<close>, so one account with an id outside the list makes it false
  whatever the sync states are; with \<open>accountIds\<close> null it returns true exactly when no
  account has a sync in progress.
\<close>

lemma isAccountsRefreshComplete_returns:
  assumes "map_of (headers s) AUTH_HEADER_KEY = Some a" and "a \<noteq> []"
    and "get_prop kvs ''accounts'' = JArr xs"
    and "\<forall>x\<in>set xs. x \<noteq> JNull \<and> x \<noteq> JUndefined"
  shows "fst (isAccountsRefreshComplete (e\<lparr>graphql := \<lambda>h q. Inr (JObj kvs)\<rparr>) (Some ids) s)
           = Inr (JBool (\<forall>x\<in>set xs. \<not> truthy (field x ''hasSyncInProgress'') \<and>
                                     array_includes ids (field x ''id'')))"
    and "fst (isAccountsRefreshComplete (e\<lparr>graphql := \<lambda>h q. Inr (JObj kvs)\<rparr>) None s)
           = Inr (JBool (\<forall>x\<in>set xs. \<not> truthy (field x ''hasSyncInProgress'')))"
    and "(\<exists>x\<in>set xs. \<not> array_includes ids (field x ''id'')) \<longrightarrow>
            fst (isAccountsRefreshComplete (e\<lparr>graphql := \<lambda>h q. Inr (JObj kvs)\<rparr>) (Some ids) s)
              = Inr (JBool False)"
proof -
  let ?e = "e\<lparr>graphql := \<lambda>h q. Inr (JObj kvs)\<rparr>"
  have module: "fst (isAccountsRefreshComplete ?e accountIds s) = every_account accountIds xs"
    for accountIds
    unfolding isAccountsRefreshComplete_def
    by (subst isAccountsRefreshComplete_body_accounts [OF _ assms(3)])
       (simp_all add: gqlCall_authorized [OF assms(1,2)])
  show "fst (isAccountsRefreshComplete ?e (Some ids) s)
           = Inr (JBool (\<forall>x\<in>set xs. \<not> truthy (field x ''hasSyncInProgress'') \<and>
                                     array_includes ids (field x ''id'')))"
    unfolding module every_account_some [OF assms(4)] by (rule refl)
  show "fst (isAccountsRefreshComplete ?e None s)
           = Inr (JBool (\<forall>x\<in>set xs. \<not> truthy (field x ''hasSyncInProgress'')))"
    unfolding module every_account_none [OF assms(4)] by (rule refl)
  show "(\<exists>x\<in>set xs. \<not> array_includes ids (field x ''id'')) \<longrightarrow>
            fst (isAccountsRefreshComplete ?e (Some ids) s) = Inr (JBool False)"
    unfolding module every_account_some [OF assms(4)] by blast
qed

lemma isAccountsRefreshComplete_outside_id:
  "fst (isAccountsRefreshComplete
          (stub_env \<lparr>status = 200, statusText = ''OK'', body = JNull\<rparr>
             (JObj [(''accounts'', JArr [JObj [(''id'', JStr ''a1''), (''hasSyncInProgress'', JBool False)],
                                        JObj [(''id'', JStr ''zz''), (''hasSyncInProgress'', JBool False)]])]))
          (Some [JStr ''a1'']) (initial_session (JStr ''T'')))
     = Inr (JBool False)"
proof -
  let ?xs = "[JObj [(''id'', JStr ''a1''), (''hasSyncInProgress'', JBool False)],
              JObj [(''id'', JStr ''zz''), (''hasSyncInProgress'', JBool False)]]"
  let ?r = "\<lparr>status = 200, statusText = ''OK'', body = JNull\<rparr>"
  let ?s = "initial_session (JStr ''T'')"
  have auth: "map_of (headers ?s) AUTH_HEADER_KEY = Some ''Token T''"
    by (simp add: initial_session_def AUTH_HEADER_KEY_def)
  have token: "''Token T'' \<noteq> []"
    by simp
  have accounts: "get_prop [(''accounts'', JArr ?xs)] ''accounts'' = JArr ?xs"
    by (simp add: get_prop_def)
  have objects: "\<forall>x\<in>set ?xs. x \<noteq> JNull \<and> x \<noteq> JUndefined"
    by simp
  have outside: "\<exists>x\<in>set ?xs. \<not> array_includes [JStr ''a1''] (field x ''id'')"
    by (simp add: array_includes_def field_def get_prop_def)
  from isAccountsRefreshComplete_returns(3) [OF auth token accounts objects,
      of "[JStr ''a1'']" "stub_env ?r JNull", unfolded stub_env_graphql] outside
  show ?thesis
    by blast
qed

text \<open>
  Claim C10. isAccountsRefreshComplete returns true if and only if every account of the
  status response has no sync in progress and, for a non-null \<open>accountIds\<close>, has its id
  in that list. The class's method returns no boolean at all: its status query goes
  through \<open>this.gqlCall\<close>, which builds the client from one object where the endpoint
  goes, so the call ends in a TypeError with nothing sent, whatever the accounts, the
  token and the remote service are.
\<close>

theorem MonarchMoney_isAccountsRefreshComplete_raises:
  "(\<exists>m. fst (MonarchMoney_isAccountsRefreshComplete e accountIds c) = Inl (TypeError m)) \<and>
   snd (MonarchMoney_isAccountsRefreshComplete e accountIds c) = c"
  by (simp add: MonarchMoney_isAccountsRefreshComplete_def isAccountsRefreshComplete_body_def
      MonarchMoney_gqlCall_fails await_def)

theorem MonarchMoney_isAccountsRefreshComplete_raises_witness:
  "(let xs = [JObj [(''id'', JStr ''a1''), (''hasSyncInProgress'', JBool False)]];
        e = stub_env \<lparr>status = 200, statusText = ''OK'', body = JNull\<rparr> (JObj [(''accounts'', JArr xs)]);
        c = MonarchMoney_new empty_io ''mm_session.json'' 10000 (JStr ''T'');
        r = MonarchMoney_isAccountsRefreshComplete e (Some [JStr ''a1'']) c
    in fst r \<noteq> Inr (JBool True) \<and> fst r \<noteq> Inr (JBool False) \<and> sent (snd r) = [])"
proof -
  let ?xs = "[JObj [(''id'', JStr ''a1''), (''hasSyncInProgress'', JBool False)]]"
  let ?e = "stub_env \<lparr>status = 200, statusText = ''OK'', body = JNull\<rparr> (JObj [(''accounts'', JArr ?xs)])"
  let ?c = "MonarchMoney_new empty_io ''mm_session.json'' 10000 (JStr ''T'')"
  have fresh: "sent ?c = []"
    by (simp add: MonarchMoney_new_def empty_io_def)
  from MonarchMoney_isAccountsRefreshComplete_raises [of ?e "Some [JStr ''a1'']" ?c]
  obtain m where "fst (MonarchMoney_isAccountsRefreshComplete ?e (Some [JStr ''a1'']) ?c) = Inl (TypeError m)"
    and "snd (MonarchMoney_isAccountsRefreshComplete ?e (Some [JStr ''a1'']) ?c) = ?c"
    by blast
  then show ?thesis
    unfolding Let_def using fresh by simp
qed

section \<open>Batch deletion of categories\<close>

text \<open>
  Each deletion is started whatever the earlier ones did, and the batch gives one outcome
  for each id, in the order of the ids.
\<close>

lemma delete_each_length: "length (fst (delete_each del ids s)) = length ids"
  by (induction ids arbitrary: s) (simp_all add: split_beta)

lemma deleteTransactionCategories_body_outcomes:
  "\<exists>os s'. deleteTransactionCategories_body (Some del) (JArr ids) s = (Inr (JArr os), s') \<and>
     length os = length ids"
proof (cases ids)
  case Nil
  then show ?thesis
    by (simp add: deleteTransactionCategories_body_def)
next
  case (Cons i rest)
  obtain os s' where run: "delete_each del ids s = (os, s')"
    by (cases "delete_each del ids s")
  have "length os = length ids"
    using delete_each_length [of del ids s] run by simp
  then show ?thesis
    using Cons run by (simp add: deleteTransactionCategories_body_def)
qed

lemma deleteTransactionCategories_through_namespace_outcomes:
  "\<exists>os s'. deleteTransactionCategories e ModuleNamespace (JArr ids) s = (Inr (JArr os), s') \<and>
     length os = length ids"
  unfolding deleteTransactionCategories_def receiver.case
  by (rule deleteTransactionCategories_body_outcomes)

text \<open>
  In the class every deletion ends at \<open>this.gqlCall\<close>, before a request is sent: the
  batch returns the TypeError of each id and deletes nothing.
\<close>

lemma MonarchMoney_deleteTransactionCategory_fails:
  "MonarchMoney_deleteTransactionCategory e i c = (Inl (TypeError ''Invalid URL''), c)"
  by (simp add: MonarchMoney_deleteTransactionCategory_def deleteTransactionCategory_body_def
      MonarchMoney_gqlCall_fails await_def)

lemma delete_each_all_fail:
  "delete_each (MonarchMoney_deleteTransactionCategory e) ids c
     = (map (\<lambda>i. JError (TypeError ''Invalid URL'')) ids, c)"
  by (induction ids) (simp_all add: MonarchMoney_deleteTransactionCategory_fails)

lemma MonarchMoney_deleteTransactionCategories_all_fail:
  "MonarchMoney_deleteTransactionCategories e (JArr ids) c
     = (Inr (JArr (map (\<lambda>i. JError (TypeError ''Invalid URL'')) ids)), c)"
  by (simp add: MonarchMoney_deleteTransactionCategories_def deleteTransactionCategories_body_def
      delete_each_all_fail)

text \<open>
  The module's function called through the module namespace, with a token in the store
  and a remote that refuses one of three deletions.
\<close>

lemma deleteTransactionCategories_through_namespace:
  "fst (deleteTransactionCategories (delete_env (JStr ''bad'')) ModuleNamespace
          (JArr [JStr ''c1'', JStr ''bad'', JStr ''c3'']) (initial_session (JStr ''T'')))
   = Inr (JArr [JBool True, JError (RequestFailedException []), JBool True])"
proof -
  have auth: "map_of (headers s) AUTH_HEADER_KEY = Some ''Token T''"
    if "headers s = [(''Client-Platform'', ''web''), (''Authorization'', ''Token T'')]" for s :: session
    using that by (simp add: AUTH_HEADER_KEY_def)
  have call: "gqlCall (delete_env (JStr ''bad'')) op Web_DeleteCategory_query (Value (JObj [(''id'', i)])) s
      = (Inr (JObj [(''deleteCategory'', JObj [(''deleted'', JBool (i \<noteq> JStr ''bad'')), (''errors'', JArr [])])]),
         s\<lparr>sent := sent s @ [GraphQL GQL_ENDPOINT (headers s) 10000 Web_DeleteCategory_query
                                (Value (JObj [(''id'', i)]))],
           clock := clock s\<rparr>)"
    if "headers s = [(''Client-Platform'', ''web''), (''Authorization'', ''Token T'')]"
    for op i and s :: session
    by (simp add: gqlCall_authorized [OF auth [OF that]] delete_env_def Web_DeleteCategory_query_def)
  show ?thesis
    by (simp add: deleteTransactionCategories_def deleteTransactionCategories_body_def
        deleteTransactionCategory_def deleteTransactionCategory_body_def call initial_session_def
        await_def eval_def member2_def get_prop_def message_of_def)
qed

text \<open>
  Claim C8. For a list of category ids of which some deletions succeed and some fail,
  deleteTransactionCategories returns one outcome for each id and does not abort. The
  module's function reaches its sibling through \<open>this\<close>; imported by name and called
  directly, as the README shows for the module's functions, it has no \<open>this\<close>, and for
  a non-empty list the call ends in a TypeError before any deletion is started.
\<close>

theorem deleteTransactionCategories_direct_call_aborts:
  "deleteTransactionCategories (delete_env (JStr ''bad'')) NoReceiver
      (JArr [JStr ''c1'', JStr ''bad'', JStr ''c3'']) (initial_session (JStr ''T''))
   = (Inl (TypeError ''Cannot read properties of undefined (reading deleteTransactionCategory)''),
      initial_session (JStr ''T''))"
proof -
  have "deleteTransactionCategories e NoReceiver = deleteTransactionCategories_body None" for e
    by (simp add: deleteTransactionCategories_def)
  then show ?thesis
    by (simp add: deleteTransactionCategories_body_def)
qed

theorem deleteTransactionCategories_direct_call_aborts_witness:
  "sent (snd (deleteTransactionCategories (delete_env (JStr ''bad'')) NoReceiver
      (JArr [JStr ''c1'', JStr ''bad'', JStr ''c3'']) (initial_session (JStr ''T'')))) = []"
proof -
  have "sent (initial_session (JStr ''T'')) = []"
    by (simp add: initial_session_def)
  with deleteTransactionCategories_direct_call_aborts show ?thesis
    by simp
qed

section \<open>No request without a token\<close>













section \<open>What a request carries\<close>

























section \<open>Waiting for a refresh\<close>




lemma authorized_sent: "authorized (s\<lparr>sent := x\<rparr>) = authorized s"
  by (simp add: authorized_def)













section \<open>A document in the place of the variables\<close>

text \<open>
  getTransactionDetails passes the variables where \<open>gqlCall\<close> takes the document, and
  the document where it takes the variables; the request goes out that way.
\<close>

lemma getTransactionDetails_swaps_arguments:
  assumes "map_of (headers s) AUTH_HEADER_KEY = Some a" and "a \<noteq> []"
  shows "sent (snd (getTransactionDetails e transactionId redirectPosted s))
           = sent s @ [GraphQL GQL_ENDPOINT (headers s) 10000
                (Value (JObj [(''id'', transactionId),
                              (''redirectPosted'', dflt (JBool True) redirectPosted)]))
                GetTransactionDrawer_query]"
  by (simp add: getTransactionDetails_def getTransactionDetails_body_def Let_def
      gqlCall_authorized [OF assms])

end
